theory Spec2Isabelle
  imports Complex_Main
begin

section \<open>Conventions of the embedding\<close>

text \<open>
  The backtester is Python. Its \<^verbatim>\<open>float\<close> values are modelled as \<^typ>\<open>real\<close>: the
  arithmetic of the model is exact, so every statement below is about the formulas the
  code computes, not about binary rounding, overflow or NaN. Python's unbounded
  \<^verbatim>\<open>int\<close> is \<^typ>\<open>int\<close>. A naive \<^verbatim>\<open>datetime\<close> is the number of microseconds
  since an epoch (comparison of naive datetimes is the comparison of these numbers), and
  \<^verbatim>\<open>datetime.date()\<close> is the number of whole days. A \<^verbatim>\<open>dict\<close> is an association
  list in insertion order with distinct keys, as Python iterates it.
\<close>

type_synonym datetime = int
type_synonym date = int

definition date_of :: "datetime \<Rightarrow> date" where
  "date_of ts = ts div 86400000000"

text \<open>\<^verbatim>\<open>int(x)\<close> on a float truncates towards zero.\<close>

definition py_int :: "real \<Rightarrow> int" where
  "py_int x = (if 0 \<le> x then \<lfloor>x\<rfloor> else \<lceil>x\<rceil>)"

text \<open>
  \<^verbatim>\<open>round(x)\<close> with one argument returns the nearest integer and, in Python 3, sends a
  value halfway between two integers to the even one.
\<close>

definition py_round :: "real \<Rightarrow> int" where
  "py_round x =
     (let f = \<lfloor>x\<rfloor>; d = x - of_int f
      in if d < 1 / 2 then f
         else if 1 / 2 < d then f + 1
         else if even f then f else f + 1)"

text \<open>
  \<^verbatim>\<open>str.upper()\<close>, on ASCII: a lower-case letter has bit 5 cleared, every other
  character is kept.
\<close>

definition upper_char :: "char \<Rightarrow> char" where
  "upper_char c =
     (if (97::nat) \<le> of_char c \<and> of_char c \<le> (122::nat)
      then (case c of Char b0 b1 b2 b3 b4 b5 b6 b7 \<Rightarrow> Char b0 b1 b2 b3 b4 False b6 b7)
      else c)"

definition upper :: "string \<Rightarrow> string" where
  "upper s = map upper_char s"

subsection \<open>Dictionaries\<close>

text \<open>\<^verbatim>\<open>d[k] = v\<close>: an existing key keeps its place, a new key goes to the end.\<close>

fun dict_set :: "('k \<times> 'v) list \<Rightarrow> 'k \<Rightarrow> 'v \<Rightarrow> ('k \<times> 'v) list" where
  "dict_set [] k v = [(k, v)]"
| "dict_set ((k', v') # d) k v = (if k' = k then (k, v) # d else (k', v') # dict_set d k v)"

text \<open>\<^verbatim>\<open>d.get(k, default)\<close>.\<close>

definition dict_get :: "('k \<times> 'v) list \<Rightarrow> 'k \<Rightarrow> 'v \<Rightarrow> 'v" where
  "dict_get d k dflt = (case map_of d k of None \<Rightarrow> dflt | Some v \<Rightarrow> v)"


section \<open>models.py\<close>

datatype OrderSide = BUY | SELL

datatype OrderType = MARKET | LIMIT | STOP | STOP_LIMIT

datatype OrderStatus = PENDING | SUBMITTED | PARTIAL | FILLED | CANCELLED | REJECTED

text \<open>\<^verbatim>\<open>OrderSide.value\<close>, the string of the enum member.\<close>

fun side_value :: "OrderSide \<Rightarrow> string" where
  "side_value BUY = ''BUY''"
| "side_value SELL = ''SELL''"

subsection \<open>Bar\<close>

record bar =
  bar_timestamp :: datetime
  bar_symbol :: string
  bar_price :: real
  bar_open :: real
  bar_high :: real
  bar_low :: real
  bar_close :: real
  bar_volume :: real

text \<open>
  The dataclass constructor followed by \<^verbatim>\<open>Bar.__post_init__\<close>. The five optional
  fields arrive as \<open>None\<close> when omitted. The Python \<^verbatim>\<open>max\<close> and \<^verbatim>\<open>min\<close> of several
  arguments are nested binary ones.
\<close>

definition Bar_post_init ::
  "datetime \<Rightarrow> string \<Rightarrow> real \<Rightarrow> real option \<Rightarrow> real option \<Rightarrow> real option \<Rightarrow>
   real option \<Rightarrow> real option \<Rightarrow> bar" where
  "Bar_post_init ts symb price opn hi lo cl vol =
     (let open1 = (case opn of None \<Rightarrow> price | Some x \<Rightarrow> x);
          high1 = (case hi of None \<Rightarrow> price | Some x \<Rightarrow> x);
          low1 = (case lo of None \<Rightarrow> price | Some x \<Rightarrow> x);
          close1 = (case cl of None \<Rightarrow> price | Some x \<Rightarrow> x);
          volume1 = (case vol of None \<Rightarrow> 0 | Some x \<Rightarrow> x);
          high2 = (if high1 < max (max open1 close1) low1
                   then max (max (max open1 close1) low1) high1 else high1);
          low2 = (if min (min open1 close1) high2 < low1
                  then min (min (min open1 close1) high2) low1 else low1)
      in \<lparr> bar_timestamp = ts, bar_symbol = symb, bar_price = price, bar_open = open1,
           bar_high = high2, bar_low = low2, bar_close = close1, bar_volume = volume1 \<rparr>)"

text \<open>\<^verbatim>\<open>Bar.from_price\<close>.\<close>

definition Bar_from_price :: "datetime \<Rightarrow> string \<Rightarrow> real \<Rightarrow> bar" where
  "Bar_from_price ts symb price = Bar_post_init ts symb price None None None None None"

subsection \<open>Signal, Order, Fill\<close>

text \<open>
  The free-form \<^verbatim>\<open>metadata\<close> dictionaries and the \<^verbatim>\<open>reason\<close> text carry no
  behaviour and are left out, except the bar prices a fill records. \<open>sig_id\<close> is the
  attribute \<^verbatim>\<open>signal_id\<close> that \<^verbatim>\<open>SignalManager.add_signal\<close> attaches.
\<close>

record signal =
  sig_timestamp :: datetime
  sig_symbol :: string
  sig_side :: OrderSide
  sig_size :: "int option"
  sig_price :: "real option"
  sig_stop_loss :: "real option"
  sig_take_profit :: "real option"
  sig_id :: "string option"

record order =
  order_id :: string
  order_timestamp :: datetime
  order_symbol :: string
  order_side :: OrderSide
  order_type :: OrderType
  order_quantity :: int
  order_status :: OrderStatus
  limit_price :: "real option"
  stop_price :: "real option"
  filled_quantity :: int
  avg_fill_price :: real
  order_stop_loss :: "real option"
  order_take_profit :: "real option"

definition remaining_quantity :: "order \<Rightarrow> int" where
  "remaining_quantity ord = order_quantity ord - filled_quantity ord"

definition is_active :: "order \<Rightarrow> bool" where
  "is_active ord = (order_status ord \<in> set [PENDING, SUBMITTED, PARTIAL])"

record fill =
  fill_id :: string
  fill_order_id :: string
  fill_timestamp :: datetime
  fill_symbol :: string
  fill_side :: OrderSide
  fill_quantity :: int
  fill_price :: real
  fill_commission :: real
  fill_slippage :: real
  fill_realized_pnl :: real
  fill_execution_price :: real
  fill_metadata :: "(string \<times> real) list"

text \<open>\<^verbatim>\<open>Fill.__post_init__\<close>: an execution price of zero is replaced by the price.\<close>

definition Fill_post_init :: "fill \<Rightarrow> fill" where
  "Fill_post_init f =
     (if fill_execution_price f = 0 then f\<lparr>fill_execution_price := fill_price f\<rparr> else f)"

definition gross_value :: "fill \<Rightarrow> real" where
  "gross_value f = of_int (fill_quantity f) * fill_price f"

definition net_value :: "fill \<Rightarrow> real" where
  "net_value f = gross_value f + fill_commission f"

subsection \<open>Position and PortfolioSnapshot\<close>

record position =
  pos_symbol :: string
  pos_quantity :: int
  pos_avg_price :: real
  pos_realized_pnl :: real
  pos_unrealized_pnl :: real
  pos_total_commission :: real
  pos_opened_at :: "datetime option"
  pos_last_updated :: "datetime option"

definition update_unrealized_pnl :: "position \<Rightarrow> real \<Rightarrow> position" where
  "update_unrealized_pnl pos current_price =
     (if pos_quantity pos \<noteq> 0
      then pos\<lparr>pos_unrealized_pnl :=
                 (current_price - pos_avg_price pos) * of_int (pos_quantity pos)\<rparr>
      else pos)"

record portfolio_snapshot =
  snap_timestamp :: datetime
  snap_cash :: real
  snap_positions :: "(string \<times> position) list"
  snap_total_value :: real
  snap_realized_pnl :: real
  snap_unrealized_pnl :: real
  snap_daily_pnl :: real
  snap_daily_return :: real
  snap_total_commission :: real
  snap_num_trades :: int
  snap_starting_cash :: real
  snap_previous_day_value :: "real option"

section \<open>utils.py\<close>

datatype py_error = ZeroDivisionError

text \<open>\<^verbatim>\<open>str(n)\<close> of an integer, for the identifiers built with f-strings.\<close>

fun str_nat :: "nat \<Rightarrow> string" where
  "str_nat n =
     (if n < 10 then [char_of (48 + n)] else str_nat (n div 10) @ [char_of (48 + n mod 10)])"

definition str_int :: "int \<Rightarrow> string" where
  "str_int i = (if i < 0 then CHR ''-'' # str_nat (nat (- i)) else str_nat (nat i))"

definition generate_fill_id :: "string \<Rightarrow> int \<Rightarrow> string" where
  "generate_fill_id oid sequence = ''FILL_'' @ oid @ ''_'' @ str_int sequence"

definition calculate_slippage :: "real \<Rightarrow> real \<Rightarrow> string \<Rightarrow> real" where
  "calculate_slippage price slippage_bps side =
     (let slippage_factor = slippage_bps / 10000
      in if upper side \<in> set [''BUY'', ''LONG'']
         then price * (1 + slippage_factor)
         else price * (1 - slippage_factor))"

definition calculate_commission :: "int \<Rightarrow> real \<Rightarrow> real \<Rightarrow> real" where
  "calculate_commission quantity price commission_bps =
     (let gross = of_int \<bar>quantity\<bar> * price;
          commission = gross * (commission_bps / 10000)
      in \<bar>commission\<bar>)"

definition calculate_pnl :: "real \<Rightarrow> real \<Rightarrow> int \<Rightarrow> real" where
  "calculate_pnl entry_price exit_price quantity = (exit_price - entry_price) * of_int quantity"

text \<open>
  \<^verbatim>\<open>round(price / tick_size) * tick_size\<close>. The float division raises
  \<^verbatim>\<open>ZeroDivisionError\<close> on a zero tick size.
\<close>

definition round_to_tick :: "real \<Rightarrow> real \<Rightarrow> py_error + real" where
  "round_to_tick price tick_size =
     (if tick_size = 0 then Inl ZeroDivisionError
      else Inr (of_int (py_round (price / tick_size)) * tick_size))"

definition safe_divide :: "real \<Rightarrow> real \<Rightarrow> real \<Rightarrow> real" where
  "safe_divide numerator denominator dflt =
     (if denominator = 0 then dflt else numerator / denominator)"

section \<open>execution.py\<close>

record execution_engine =
  slippage_bps :: real
  commission_bps :: real
  tick_size :: real
  use_first_touch :: bool
  fill_counter :: int

definition market_order_price :: "execution_engine \<Rightarrow> order \<Rightarrow> bar \<Rightarrow> real option" where
  "market_order_price self ord b =
     (if use_first_touch self then Some (bar_open b) else Some (bar_close b))"

definition limit_order_price :: "execution_engine \<Rightarrow> order \<Rightarrow> bar \<Rightarrow> real option" where
  "limit_order_price self ord b =
     (case limit_price ord of
        None \<Rightarrow> None
      | Some lmt \<Rightarrow>
          if order_side ord = BUY then
            (if bar_low b \<le> lmt then
               (if use_first_touch self
                then (if bar_open b \<le> lmt then Some (min lmt (bar_open b)) else Some lmt)
                else (if bar_close b \<le> lmt then Some (min lmt (bar_close b)) else None))
             else None)
          else
            (if lmt \<le> bar_high b then
               (if use_first_touch self
                then (if lmt \<le> bar_open b then Some (max lmt (bar_open b)) else Some lmt)
                else (if lmt \<le> bar_close b then Some (max lmt (bar_close b)) else None))
             else None))"

definition stop_order_price :: "execution_engine \<Rightarrow> order \<Rightarrow> bar \<Rightarrow> real option" where
  "stop_order_price self ord b =
     (case stop_price ord of
        None \<Rightarrow> None
      | Some stp \<Rightarrow>
          if order_side ord = BUY
          then (if stp \<le> bar_high b then Some (max stp (bar_open b)) else None)
          else (if bar_low b \<le> stp then Some (min stp (bar_open b)) else None))"

definition stop_limit_order_price :: "execution_engine \<Rightarrow> order \<Rightarrow> bar \<Rightarrow> real option" where
  "stop_limit_order_price self ord b =
     (case (stop_price ord, limit_price ord) of
        (Some stp, Some lmt) \<Rightarrow>
          (let stop_triggered =
                 (if order_side ord = BUY then stp \<le> bar_high b else bar_low b \<le> stp)
           in if \<not> stop_triggered then None else limit_order_price self ord b)
      | _ \<Rightarrow> None)"

definition determine_execution_price :: "execution_engine \<Rightarrow> order \<Rightarrow> bar \<Rightarrow> real option" where
  "determine_execution_price self ord b =
     (case order_type ord of
        MARKET \<Rightarrow> market_order_price self ord b
      | LIMIT \<Rightarrow> limit_order_price self ord b
      | STOP \<Rightarrow> stop_order_price self ord b
      | STOP_LIMIT \<Rightarrow> stop_limit_order_price self ord b)"

text \<open>
  \<^verbatim>\<open>ExecutionEngine.simulate_fill\<close>. The result is the optional fill and the engine with
  its fill counter advanced; the only exception on the way is the division inside
  \<^verbatim>\<open>round_to_tick\<close>.
\<close>

definition simulate_fill ::
  "execution_engine \<Rightarrow> order \<Rightarrow> bar \<Rightarrow> int \<Rightarrow> py_error + (fill option \<times> execution_engine)" where
  "simulate_fill self ord b fill_sequence =
     (if \<not> is_active ord then Inr (None, self)
      else if order_symbol ord \<noteq> bar_symbol b then Inr (None, self)
      else case determine_execution_price self ord b of
        None \<Rightarrow> Inr (None, self)
      | Some execution_price \<Rightarrow>
          (let side_str = side_value (order_side ord);
               slipped = calculate_slippage execution_price (slippage_bps self) side_str
           in case round_to_tick slipped (tick_size self) of
                Inl e \<Rightarrow> Inl e
              | Inr fprice \<Rightarrow>
                  (let fill_qty = remaining_quantity ord;
                       commission = calculate_commission fill_qty fprice (commission_bps self);
                       f = Fill_post_init
                             \<lparr> fill_id = generate_fill_id (order_id ord) fill_sequence,
                               fill_order_id = order_id ord,
                               fill_timestamp = bar_timestamp b,
                               fill_symbol = order_symbol ord,
                               fill_side = order_side ord,
                               fill_quantity = fill_qty,
                               fill_price = fprice,
                               fill_commission = commission,
                               fill_slippage = slippage_bps self,
                               fill_realized_pnl = 0,
                               fill_execution_price = execution_price,
                               fill_metadata =
                                 [(''bar_open'', bar_open b), (''bar_high'', bar_high b),
                                  (''bar_low'', bar_low b), (''bar_close'', bar_close b)] \<rparr>
                   in Inr (Some f, self\<lparr>fill_counter := fill_counter self + 1\<rparr>))))"

text \<open>
  \<^verbatim>\<open>check_stop_loss_hit\<close> and \<^verbatim>\<open>check_take_profit_hit\<close> return either
  \<^verbatim>\<open>(True, price)\<close> or \<^verbatim>\<open>(False, None)\<close>: here \<open>Some price\<close> and \<open>None\<close>.
\<close>

definition check_stop_loss_hit :: "string \<Rightarrow> real \<Rightarrow> bar \<Rightarrow> real option" where
  "check_stop_loss_hit position_side stop_loss b =
     (if upper position_side \<in> set [''LONG'', ''BUY'']
      then (if bar_low b \<le> stop_loss then Some (min stop_loss (bar_open b)) else None)
      else if upper position_side \<in> set [''SHORT'', ''SELL'']
      then (if stop_loss \<le> bar_high b then Some (max stop_loss (bar_open b)) else None)
      else None)"

definition check_take_profit_hit :: "string \<Rightarrow> real \<Rightarrow> bar \<Rightarrow> real option" where
  "check_take_profit_hit position_side take_profit b =
     (if upper position_side \<in> set [''LONG'', ''BUY'']
      then (if take_profit \<le> bar_high b then Some (max take_profit (bar_open b)) else None)
      else if upper position_side \<in> set [''SHORT'', ''SELL'']
      then (if bar_low b \<le> take_profit then Some (min take_profit (bar_open b)) else None)
      else None)"

definition resolve_tp_sl_tie :: "string \<Rightarrow> real \<Rightarrow> real \<Rightarrow> bar \<Rightarrow> string \<times> real" where
  "resolve_tp_sl_tie position_side stop_loss take_profit b =
     (case (check_stop_loss_hit position_side stop_loss b,
            check_take_profit_hit position_side take_profit b) of
        (Some sl_price, Some tp_price) \<Rightarrow>
          if upper position_side \<in> set [''LONG'', ''BUY'']
          then (if bar_open b < bar_close b then (''TP'', tp_price) else (''SL'', sl_price))
          else (if bar_close b < bar_open b then (''TP'', tp_price) else (''SL'', sl_price))
      | (Some sl_price, None) \<Rightarrow> (''SL'', sl_price)
      | (None, Some tp_price) \<Rightarrow> (''TP'', tp_price)
      | (None, None) \<Rightarrow> (''NONE'', 0))"

section \<open>risk_manager.py\<close>

record risk_manager =
  max_position_pct :: real
  max_portfolio_leverage :: real
  max_positions :: "int option"
  min_position_size :: int
  sizing_method :: string
  vol_lookback :: int
  target_vol :: real

definition size_by_fraction :: "risk_manager \<Rightarrow> real \<Rightarrow> real \<Rightarrow> int" where
  "size_by_fraction self price portfolio_value =
     (if price \<le> 0 \<or> portfolio_value \<le> 0 then min_position_size self
      else (let max_capital = portfolio_value * max_position_pct self;
                quantity = max_capital / price
            in py_int quantity))"

definition size_by_volatility :: "risk_manager \<Rightarrow> real \<Rightarrow> real \<Rightarrow> real \<Rightarrow> int" where
  "size_by_volatility self price portfolio_value volatility =
     (if price \<le> 0 \<or> portfolio_value \<le> 0 \<or> volatility \<le> 0 then min_position_size self
      else (let target_dollar_vol = target_vol self * portfolio_value;
                position_dollar_vol = price * volatility;
                quantity = safe_divide target_dollar_vol position_dollar_vol
                             (of_int (min_position_size self));
                max_capital = portfolio_value * max_position_pct self;
                max_quantity = max_capital / price
            in py_int (min quantity max_quantity)))"

text \<open>
  \<^verbatim>\<open>RiskManager.calculate_position_size\<close>. The symbol is used for logging only. The
  closing \<^verbatim>\<open>int(size)\<close> acts on an integer.
\<close>

definition calculate_position_size ::
  "risk_manager \<Rightarrow> string \<Rightarrow> real \<Rightarrow> real \<Rightarrow> int option \<Rightarrow> real option \<Rightarrow> int" where
  "calculate_position_size self symbol price portfolio_value signal_size volatility =
     (let by_method =
            (if sizing_method self = ''fraction''
               then size_by_fraction self price portfolio_value
             else if sizing_method self = ''volatility''
               then (case volatility of
                       None \<Rightarrow> size_by_fraction self price portfolio_value
                     | Some v \<Rightarrow> size_by_volatility self price portfolio_value v)
             else if sizing_method self = ''fixed''
               then min_position_size self
             else size_by_fraction self price portfolio_value);
          size = (case signal_size of
                    None \<Rightarrow> by_method
                  | Some n \<Rightarrow> if 0 < n then n else by_method)
      in max size (min_position_size self))"

datatype limit_reason =
    Limit_OK
  | Max_positions_reached int
  | Position_size_exceeds real real
  | Leverage_exceeds real real

text \<open>
  \<^verbatim>\<open>RiskManager.check_position_limit\<close>; the reason is the data of the message instead of
  its text.
\<close>

definition check_position_limit ::
  "risk_manager \<Rightarrow> string \<Rightarrow> int \<Rightarrow> real \<Rightarrow> real \<Rightarrow> (string \<times> position) list \<Rightarrow>
   bool \<times> limit_reason" where
  "check_position_limit self symbol proposed_quantity price portfolio_value current_positions =
     (let values = map snd current_positions;
          current_count = int (length (filter (\<lambda>p. pos_quantity p \<noteq> 0) values));
          is_new = (case map_of current_positions symbol of
                      None \<Rightarrow> True | Some p \<Rightarrow> pos_quantity p = 0);
          position_value = of_int \<bar>proposed_quantity\<bar> * price;
          max_position_value = portfolio_value * max_position_pct self;
          total_exposure = sum_list (map (\<lambda>p. \<bar>of_int (pos_quantity p) * price\<bar>) values);
          new_exposure0 = total_exposure + \<bar>of_int proposed_quantity * price\<bar>;
          new_exposure = (case map_of current_positions symbol of
                            None \<Rightarrow> new_exposure0
                          | Some p \<Rightarrow> new_exposure0 - \<bar>of_int (pos_quantity p) * price\<bar>);
          leverage = safe_divide new_exposure portfolio_value 0
      in case max_positions self of
           Some m \<Rightarrow>
             if is_new \<and> m \<le> current_count then (False, Max_positions_reached m)
             else if max_position_value < position_value
               then (False, Position_size_exceeds position_value max_position_value)
             else if max_portfolio_leverage self < leverage
               then (False, Leverage_exceeds leverage (max_portfolio_leverage self))
             else (True, Limit_OK)
         | None \<Rightarrow>
             if max_position_value < position_value
               then (False, Position_size_exceeds position_value max_position_value)
             else if max_portfolio_leverage self < leverage
               then (False, Leverage_exceeds leverage (max_portfolio_leverage self))
             else (True, Limit_OK))"

text \<open>
  \<^verbatim>\<open>RiskManager.adjust_size_for_limits\<close>. The two divisions by the price raise
  \<^verbatim>\<open>ZeroDivisionError\<close> on a zero price.
\<close>

definition adjust_size_for_limits ::
  "risk_manager \<Rightarrow> string \<Rightarrow> int \<Rightarrow> real \<Rightarrow> real \<Rightarrow> (string \<times> position) list \<Rightarrow>
   py_error + int" where
  "adjust_size_for_limits self symbol proposed_quantity price portfolio_value current_positions =
     (if proposed_quantity \<le> 0 then Inr 0
      else if fst (check_position_limit self symbol proposed_quantity price portfolio_value
                     current_positions)
        then Inr proposed_quantity
      else if price = 0 then Inl ZeroDivisionError
      else (let max_position_value = portfolio_value * max_position_pct self;
                max_quantity = py_int (max_position_value / price);
                current_exposure =
                  sum_list (map (\<lambda>p. \<bar>of_int (pos_quantity p) * price\<bar>)
                              (filter (\<lambda>p. pos_symbol p \<noteq> symbol) (map snd current_positions)));
                available_exposure =
                  portfolio_value * max_portfolio_leverage self - current_exposure;
                max_quantity_leverage = py_int (available_exposure / price);
                adjusted_quantity = min (min max_quantity max_quantity_leverage) proposed_quantity
            in Inr (max adjusted_quantity 0)))"

section \<open>signal_manager.py\<close>

record signal_manager =
  dedupe_window_seconds :: int
  signal_queue :: "signal list"
  all_signals :: "signal list"
  recent_signals :: "((string \<times> string \<times> datetime) \<times> string) list"

text \<open>\<^verbatim>\<open>datetime.timestamp()\<close> and \<^verbatim>\<open>timedelta.total_seconds()\<close>: seconds as a float.\<close>

definition timestamp_seconds :: "datetime \<Rightarrow> real" where
  "timestamp_seconds ts = of_int ts / 1000000"

text \<open>
  \<^verbatim>\<open>SignalManager._is_duplicate\<close>: forgets the tracked signals older than the window,
  then looks for one of the same symbol and side within the window.
\<close>

definition is_duplicate :: "signal_manager \<Rightarrow> signal \<Rightarrow> bool \<times> signal_manager" where
  "is_duplicate self sg =
     (let cutoff_time = timestamp_seconds (sig_timestamp sg) - of_int (dedupe_window_seconds self);
          kept = filter (\<lambda>((symb, side, ts), sid). \<not> timestamp_seconds ts < cutoff_time)
                   (recent_signals self);
          self1 = self\<lparr>recent_signals := kept\<rparr>;
          found = list_ex
                    (\<lambda>((symb, side, ts), sid).
                       symb = sig_symbol sg \<and> side = side_value (sig_side sg) \<and>
                       \<bar>timestamp_seconds (ts - sig_timestamp sg)\<bar>
                         < of_int (dedupe_window_seconds self))
                    kept
      in (found, self1))"

text \<open>
  \<^verbatim>\<open>SignalManager.add_signal\<close>. The identifier that \<^verbatim>\<open>generate_signal_id\<close> draws from
  \<^verbatim>\<open>uuid4\<close> is the parameter \<open>fresh_id\<close>.
\<close>

definition add_signal :: "signal_manager \<Rightarrow> signal \<Rightarrow> string \<Rightarrow> bool \<times> signal_manager" where
  "add_signal self sg fresh_id =
     (let sid = (case sig_id sg of None \<Rightarrow> fresh_id | Some i \<Rightarrow> i);
          sg1 = sg\<lparr>sig_id := Some sid\<rparr>;
          (dup, self1) = is_duplicate self sg1
      in if dup then (False, self1)
         else (True,
               self1\<lparr>signal_queue := signal_queue self1 @ [sg1],
                      all_signals := all_signals self1 @ [sg1],
                      recent_signals :=
                        dict_set (recent_signals self1)
                          (sig_symbol sg1, side_value (sig_side sg1), sig_timestamp sg1)
                          sid\<rparr>))"

text \<open>
  The loop of \<^verbatim>\<open>SignalManager.get_signals_for_timestamp\<close>: while the queue is not empty
  and its first signal is due, move it to the result; stop at the first signal that is
  not due. The result is the collected list and the remaining queue.
\<close>

fun drain_queue :: "signal list \<Rightarrow> datetime \<Rightarrow> signal list \<Rightarrow> signal list \<times> signal list" where
  "drain_queue [] t signals = (signals, [])"
| "drain_queue (s # q) t signals =
     (if sig_timestamp s \<le> t then drain_queue q t (signals @ [s]) else (signals, s # q))"

definition get_signals_for_timestamp ::
  "signal_manager \<Rightarrow> datetime \<Rightarrow> signal list \<times> signal_manager" where
  "get_signals_for_timestamp self t =
     (let (signals, rest) = drain_queue (signal_queue self) t []
      in (signals, self\<lparr>signal_queue := rest\<rparr>))"

section \<open>portfolio.py\<close>

record portfolio =
  initial_cash :: real
  cash :: real
  track_daily_pnl :: bool
  square_off_eod :: bool
  positions :: "(string \<times> position) list"
  realized_pnl :: real
  unrealized_pnl :: real
  total_commission :: real
  num_trades :: int
  current_day :: "date option"
  daily_pnl :: real
  daily_starting_value :: real
  previous_day_value :: real
  daily_pnl_history :: "(date \<times> real) list"
  daily_return_history :: "(date \<times> real) list"
  snapshots :: "portfolio_snapshot list"
  current_prices :: "(string \<times> real) list"

text \<open>\<^verbatim>\<open>Portfolio.__init__\<close>.\<close>

definition Portfolio_init :: "real \<Rightarrow> bool \<Rightarrow> bool \<Rightarrow> portfolio" where
  "Portfolio_init initial track square_off =
     \<lparr> initial_cash = initial, cash = initial, track_daily_pnl = track,
       square_off_eod = square_off, positions = [], realized_pnl = 0, unrealized_pnl = 0,
       total_commission = 0, num_trades = 0, current_day = None, daily_pnl = 0,
       daily_starting_value = initial, previous_day_value = initial,
       daily_pnl_history = [], daily_return_history = [], snapshots = [],
       current_prices = [] \<rparr>"

definition get_total_value :: "portfolio \<Rightarrow> real" where
  "get_total_value self = cash self + unrealized_pnl self"

text \<open>
  The body of the loop of \<^verbatim>\<open>Portfolio._square_off_all_positions\<close> for one item of
  \<^verbatim>\<open>list(self.positions.items())\<close>: the portfolio's totals and the position object
  after it.
\<close>

definition square_off_position :: "portfolio \<Rightarrow> string \<Rightarrow> position \<Rightarrow> portfolio \<times> position" where
  "square_off_position self symbol pos =
     (if pos_quantity pos \<noteq> 0 then
        (let close_price = dict_get (current_prices self) symbol (pos_avg_price pos);
             realized = calculate_pnl (pos_avg_price pos) close_price (pos_quantity pos);
             new_cash = (if 0 < pos_quantity pos
                         then cash self + of_int \<bar>pos_quantity pos\<bar> * close_price
                         else cash self - of_int \<bar>pos_quantity pos\<bar> * close_price)
         in (self\<lparr>realized_pnl := realized_pnl self + realized,
                   daily_pnl := daily_pnl self + realized,
                   cash := new_cash\<rparr>,
             pos\<lparr>pos_quantity := 0, pos_avg_price := 0\<rparr>))
      else (self, pos))"

fun square_off_items ::
  "portfolio \<Rightarrow> (string \<times> position) list \<Rightarrow> portfolio \<times> (string \<times> position) list" where
  "square_off_items self [] = (self, [])"
| "square_off_items self ((symbol, pos) # rest) =
     (let (self1, pos1) = square_off_position self symbol pos;
          (self2, rest1) = square_off_items self1 rest
      in (self2, (symbol, pos1) # rest1))"

definition square_off_all_positions :: "portfolio \<Rightarrow> datetime \<Rightarrow> portfolio" where
  "square_off_all_positions self timestamp =
     (if positions self = [] then self
      else (let (self1, items) = square_off_items self (positions self)
            in self1\<lparr>positions := items\<rparr>))"

text \<open>\<^verbatim>\<open>Portfolio._check_new_day\<close>.\<close>

definition check_new_day :: "portfolio \<Rightarrow> datetime \<Rightarrow> portfolio" where
  "check_new_day self timestamp =
     (let current_date = date_of timestamp
      in case current_day self of
           None \<Rightarrow>
             self\<lparr>current_day := Some current_date,
                  daily_starting_value := get_total_value self\<rparr>
         | Some day \<Rightarrow>
             if current_date \<noteq> day then
               (let end_of_day_value = get_total_value self;
                    daily_return = (if 0 < daily_starting_value self
                                    then daily_pnl self / daily_starting_value self else 0);
                    self1 = self\<lparr>daily_pnl_history :=
                                   dict_set (daily_pnl_history self) day (daily_pnl self),
                                 daily_return_history :=
                                   dict_set (daily_return_history self) day daily_return\<rparr>;
                    self2 = (if square_off_eod self1
                             then square_off_all_positions self1 timestamp else self1)
                in self2\<lparr>current_day := Some current_date,
                         previous_day_value := end_of_day_value,
                         daily_starting_value := end_of_day_value,
                         daily_pnl := 0\<rparr>)
             else self)"

text \<open>\<^verbatim>\<open>Portfolio._update_position\<close>.\<close>

definition update_position :: "position \<Rightarrow> fill \<Rightarrow> position" where
  "update_position pos f =
     (let old_quantity = pos_quantity pos;
          new_quantity = (if fill_side f = BUY then old_quantity + fill_quantity f
                          else old_quantity - fill_quantity f);
          pos1 =
            (if new_quantity = 0 then pos\<lparr>pos_quantity := 0, pos_avg_price := 0\<rparr>
             else if (0 < old_quantity \<and> 0 < new_quantity) \<or> (old_quantity < 0 \<and> new_quantity < 0)
               then (let old_value = of_int \<bar>old_quantity\<bar> * pos_avg_price pos;
                         new_value = of_int (fill_quantity f) * fill_price f;
                         total_quantity = \<bar>new_quantity\<bar>
                     in pos\<lparr>pos_avg_price := (old_value + new_value) / of_int total_quantity,
                            pos_quantity := new_quantity\<rparr>)
             else if \<bar>new_quantity\<bar> < \<bar>old_quantity\<bar>
               then pos\<lparr>pos_quantity := new_quantity\<rparr>
             else pos\<lparr>pos_quantity := new_quantity, pos_avg_price := fill_price f,
                       pos_opened_at := Some (fill_timestamp f)\<rparr>)
      in pos1\<lparr>pos_last_updated := Some (fill_timestamp f),
               pos_total_commission := pos_total_commission pos1 + fill_commission f\<rparr>)"

text \<open>
  The steps of \<^verbatim>\<open>Portfolio.apply_fill\<close>, in the order of the source. First the price
  cache is written and the day is checked.
\<close>

definition enter_fill :: "portfolio \<Rightarrow> fill \<Rightarrow> real option \<Rightarrow> portfolio" where
  "enter_fill self f current_price =
     (let price = (case current_price of None \<Rightarrow> fill_price f | Some c \<Rightarrow> c);
          self1 = self\<lparr>current_prices := dict_set (current_prices self) (fill_symbol f) price\<rparr>
      in if track_daily_pnl self1 then check_new_day self1 (fill_timestamp f) else self1)"

text \<open>Get or create the position of the fill's symbol.\<close>

definition position_for :: "portfolio \<Rightarrow> fill \<Rightarrow> position" where
  "position_for self f =
     (case map_of (positions self) (fill_symbol f) of
        Some pos \<Rightarrow> pos
      | None \<Rightarrow> \<lparr> pos_symbol = fill_symbol f, pos_quantity = 0, pos_avg_price = 0,
                  pos_realized_pnl = 0, pos_unrealized_pnl = 0, pos_total_commission = 0,
                  pos_opened_at = Some (fill_timestamp f),
                  pos_last_updated = Some (fill_timestamp f) \<rparr>)"

text \<open>The realized P&L of a fill against a position (\<^verbatim>\<open>fill_realized_pnl\<close>).\<close>

definition closing_pnl :: "position \<Rightarrow> fill \<Rightarrow> real" where
  "closing_pnl pos f =
     (if pos_quantity pos \<noteq> 0 then
        (let is_closing = ((0 < pos_quantity pos \<and> fill_side f = SELL) \<or>
                           (pos_quantity pos < 0 \<and> fill_side f = BUY))
         in if is_closing then
              (let close_quantity = min \<bar>fill_quantity f\<bar> \<bar>pos_quantity pos\<bar>
               in calculate_pnl (pos_avg_price pos) (fill_price f)
                    (if 0 < pos_quantity pos then close_quantity else - close_quantity))
            else 0)
      else 0)"

text \<open>
  \<^verbatim>\<open>Portfolio.apply_fill\<close>: the portfolio after the fill, and the fill with its
  \<^verbatim>\<open>realized_pnl\<close> written back.
\<close>

definition apply_fill :: "portfolio \<Rightarrow> fill \<Rightarrow> real option \<Rightarrow> portfolio \<times> fill" where
  "apply_fill self f current_price =
     (let self1 = enter_fill self f current_price;
          pos = position_for self1 f;
          fill_realized = closing_pnl pos f;
          pos1 = update_position pos f;
          new_cash = (if fill_side f = BUY then cash self1 - net_value f
                      else cash self1 + net_value f);
          new_daily = (if track_daily_pnl self1
                       then daily_pnl self1 + (fill_realized - fill_commission f)
                       else daily_pnl self1)
      in (self1\<lparr>positions := dict_set (positions self1) (fill_symbol f) pos1,
                 cash := new_cash,
                 realized_pnl := realized_pnl self1 + fill_realized,
                 total_commission := total_commission self1 + fill_commission f,
                 num_trades := num_trades self1 + 1,
                 daily_pnl := new_daily\<rparr>,
          f\<lparr>fill_realized_pnl := fill_realized\<rparr>))"



text \<open>\<^verbatim>\<open>Portfolio.update_from_bar\<close>.\<close>

definition update_from_bar :: "portfolio \<Rightarrow> bar \<Rightarrow> portfolio" where
  "update_from_bar self b =
     (let cp = dict_set (current_prices self) (bar_symbol b) (bar_close b);
          items = (case map_of (positions self) (bar_symbol b) of
                     None \<Rightarrow> positions self
                   | Some pos \<Rightarrow>
                       if pos_quantity pos \<noteq> 0
                       then dict_set (positions self) (bar_symbol b)
                              (update_unrealized_pnl pos (bar_close b))
                       else positions self);
          unreal = sum_list (map pos_unrealized_pnl
                              (filter (\<lambda>p. pos_quantity p \<noteq> 0) (map snd items)))
      in self\<lparr>current_prices := cp, positions := items, unrealized_pnl := unreal\<rparr>)"


section \<open>A run of the portfolio\<close>




section \<open>Quantities of the statements\<close>

text \<open>
  The positions after a square-off: every position with a non-zero quantity has its
  quantity and its average price set to zero, the others are untouched.
\<close>

definition flattened :: "(string \<times> position) list \<Rightarrow> (string \<times> position) list" where
  "flattened items =
     map (\<lambda>(k, p). (k, if pos_quantity p \<noteq> 0
                         then p\<lparr>pos_quantity := 0, pos_avg_price := 0\<rparr> else p)) items"

text \<open>
  The P&L a square-off at the cached prices posts, and what it adds to the cash: the sums,
  over the positions, of (price \<open>-\<close> average entry) \<open>\<times>\<close> signed quantity and of signed
  quantity \<open>\<times>\<close> price, the price of a symbol being its entry of the price cache and the
  position's average entry when the cache has none.
\<close>

definition square_off_pnl :: "(string \<times> real) list \<Rightarrow> (string \<times> position) list \<Rightarrow> real" where
  "square_off_pnl prices items =
     sum_list (map (\<lambda>(k, p). (dict_get prices k (pos_avg_price p) - pos_avg_price p)
                               * of_int (pos_quantity p)) items)"

definition square_off_proceeds :: "(string \<times> real) list \<Rightarrow> (string \<times> position) list \<Rightarrow> real" where
  "square_off_proceeds prices items =
     sum_list (map (\<lambda>(k, p). of_int (pos_quantity p) * dict_get prices k (pos_avg_price p))
                 items)"

section \<open>Concrete runs\<close>

text \<open>
  The inputs at which the properties below are evaluated. A fill as the dataclass
  constructor builds it, with \<^verbatim>\<open>realized_pnl\<close> and \<^verbatim>\<open>execution_price\<close> at their
  defaults.
\<close>

definition Fill_init ::
  "string \<Rightarrow> datetime \<Rightarrow> string \<Rightarrow> OrderSide \<Rightarrow> int \<Rightarrow> real \<Rightarrow> real \<Rightarrow> fill" where
  "Fill_init oid ts symb side quantity price commission =
     Fill_post_init
       \<lparr> fill_id = generate_fill_id oid 0, fill_order_id = oid, fill_timestamp = ts,
         fill_symbol = symb, fill_side = side, fill_quantity = quantity, fill_price = price,
         fill_commission = commission, fill_slippage = 0, fill_realized_pnl = 0,
         fill_execution_price = 0, fill_metadata = [] \<rparr>"

text \<open>
  A portfolio of 100000 that bought 10 at 100 paying a commission of 5, and the sale of
  the same 10 at 100, again with a commission of 5, a minute later.
\<close>

definition bought_ten :: portfolio where
  "bought_ten =
     fst (apply_fill (Portfolio_init 100000 True False)
            (Fill_init ''A'' 0 ''SYM'' BUY 10 100 5) None)"

definition sell_ten :: fill where
  "sell_ten = Fill_init ''B'' 60000000 ''SYM'' SELL 10 100 5"

text \<open>
  A portfolio of 100000 with day tracking and end-of-day square-off that bought 10 at 100
  without commission on day 0 and was marked at a close of 102 an hour later; and a fill of
  the next day, at 102.
\<close>

definition long_ten_marked :: portfolio where
  "long_ten_marked =
     update_from_bar
       (fst (apply_fill (Portfolio_init 100000 True True)
               (Fill_init ''A'' 0 ''SYM'' BUY 10 100 0) None))
       (Bar_from_price 3600000000 ''SYM'' 102)"

definition next_day_fill :: fill where
  "next_day_fill = Fill_init ''B'' 86400000000 ''SYM'' BUY 10 102 0"

text \<open>A fill of the next day that arrives at 110, above the last mark of 102.\<close>

definition gap_day_fill :: fill where
  "gap_day_fill = Fill_init ''C'' 86400000000 ''SYM'' BUY 10 110 0"



text \<open>
  An execution engine without slippage or commission and a tick size of one half, a
  submitted market order to buy 10, and a bar whose open is 100.25: halfway between the
  tick multiples 100 and 100.5.
\<close>

definition half_tick_engine :: execution_engine where
  "half_tick_engine =
     \<lparr> slippage_bps = 0, commission_bps = 0, tick_size = 1 / 2, use_first_touch = True,
       fill_counter = 0 \<rparr>"

definition market_buy :: order where
  "market_buy =
     \<lparr> order_id = ''ORD1'', order_timestamp = 0, order_symbol = ''SYM'', order_side = BUY,
       order_type = MARKET, order_quantity = 10, order_status = SUBMITTED,
       limit_price = None, stop_price = None, filled_quantity = 0, avg_fill_price = 0,
       order_stop_loss = None, order_take_profit = None \<rparr>"

definition halfway_bar :: bar where
  "halfway_bar = Bar_from_price 0 ''SYM'' (401 / 4)"

text \<open>
  A signal with only the required fields, an empty signal manager with the default window
  of 60 seconds, and two queues filled through \<^verbatim>\<open>add_signal\<close>: one receives a signal
  stamped 10 s and then one stamped 5 s, the other the same two in timestamp order.
\<close>

definition Signal_init :: "datetime \<Rightarrow> string \<Rightarrow> OrderSide \<Rightarrow> signal" where
  "Signal_init ts symb side =
     \<lparr> sig_timestamp = ts, sig_symbol = symb, sig_side = side, sig_size = None,
       sig_price = None, sig_stop_loss = None, sig_take_profit = None, sig_id = None \<rparr>"

definition SignalManager_init :: "int \<Rightarrow> signal_manager" where
  "SignalManager_init window =
     \<lparr> dedupe_window_seconds = window, signal_queue = [], all_signals = [],
       recent_signals = [] \<rparr>"

definition out_of_order_manager :: signal_manager where
  "out_of_order_manager =
     snd (add_signal
            (snd (add_signal (SignalManager_init 60) (Signal_init 10000000 ''SYM'' BUY) ''S1''))
            (Signal_init 5000000 ''SYM'' SELL) ''S2'')"

definition in_order_manager :: signal_manager where
  "in_order_manager =
     snd (add_signal
            (snd (add_signal (SignalManager_init 60) (Signal_init 5000000 ''SYM'' SELL) ''S2''))
            (Signal_init 10000000 ''SYM'' BUY) ''S1'')"

text \<open>
  A bar that opens and closes at 100 after trading between 94 and 106, against a short
  position with its stop loss at 105 and its take profit at 95; and a bullish bar for a
  long position with stop loss 96 and take profit 105.
\<close>

definition flat_close_bar :: bar where
  "flat_close_bar = Bar_post_init 0 ''SYM'' 100 (Some 100) (Some 106) (Some 94) (Some 100) None"

definition bullish_bar :: bar where
  "bullish_bar = Bar_post_init 0 ''SYM'' 104 (Some 99) (Some 106) (Some 95) (Some 104) None"

text \<open>The risk manager with the defaults of its constructor.\<close>

definition RiskManager_default :: risk_manager where
  "RiskManager_default =
     \<lparr> max_position_pct = 1 / 5, max_portfolio_leverage = 1, max_positions = None,
       min_position_size = 1, sizing_method = ''fraction'', vol_lookback = 20,
       target_vol = 3 / 20 \<rparr>"

section \<open>Cash and realized P&L of a fill\<close>

lemma apply_fill_cash:
  "cash (fst (apply_fill self f cp)) =
     (if fill_side f = BUY
      then cash (enter_fill self f cp)
             - (of_int (fill_quantity f) * fill_price f + fill_commission f)
      else cash (enter_fill self f cp)
             + (of_int (fill_quantity f) * fill_price f + fill_commission f))"
  by (simp add: apply_fill_def Let_def net_value_def gross_value_def)

lemmas scenario_defs =
  Fill_init_def Fill_post_init_def Portfolio_init_def generate_fill_id_def
  apply_fill_def enter_fill_def check_new_day_def get_total_value_def date_of_def
  position_for_def closing_pnl_def update_position_def calculate_pnl_def
  net_value_def gross_value_def Let_def

text \<open>
  Claim C1, on the code: a SELL adds \<^verbatim>\<open>net_value\<close>, that is quantity \<open>\<times>\<close> price plus the
  commission, to the cash. After buying 10 at 100 with a commission of 5 the cash is
  98995; selling the 10 at 100 with a commission of 5 brings it back to 100000, an
  increase of 1005 where the claim says 995, although 10 of commission were charged.
\<close>

theorem apply_fill_sell_adds_commission:
  "cash bought_ten = 98995
   \<and> cash (fst (apply_fill bought_ten sell_ten None)) = 100000
   \<and> total_commission (fst (apply_fill bought_ten sell_ten None)) = 10"
  by (simp add: bought_ten_def sell_ten_def scenario_defs)

text \<open>
  Claim C7. Let \<open>pos\<close> be the position the fill meets, after the day check of
  \<^verbatim>\<open>apply_fill\<close> and created flat when the symbol is new. When its direction opposes the
  fill's side, the realized P&L written into the fill is
  (fill price \<open>-\<close> average entry) \<open>\<times>\<close> the closed quantity min(|fill quantity|, |position
  quantity|) carrying the position's sign; otherwise (same direction, or a flat position)
  it is 0. The portfolio's cumulative realized P&L grows by the same amount.
\<close>

theorem apply_fill_realized_pnl:
  assumes "pos = position_for (enter_fill self f cp) f"
  shows "((0 < pos_quantity pos \<and> fill_side f = SELL) \<or> (pos_quantity pos < 0 \<and> fill_side f = BUY)
           \<longrightarrow> fill_realized_pnl (snd (apply_fill self f cp))
                 = (fill_price f - pos_avg_price pos)
                   * of_int (sgn (pos_quantity pos)
                             * min \<bar>fill_quantity f\<bar> \<bar>pos_quantity pos\<bar>))
       \<and> (\<not> ((0 < pos_quantity pos \<and> fill_side f = SELL) \<or>
               (pos_quantity pos < 0 \<and> fill_side f = BUY))
           \<longrightarrow> fill_realized_pnl (snd (apply_fill self f cp)) = 0)
       \<and> realized_pnl (fst (apply_fill self f cp))
           = realized_pnl (enter_fill self f cp)
             + fill_realized_pnl (snd (apply_fill self f cp))"
  using assms
  by (auto simp add: apply_fill_def Let_def closing_pnl_def calculate_pnl_def)

theorem apply_fill_realized_pnl_witness:
  "pos_quantity (position_for (enter_fill bought_ten (Fill_init ''B'' 60000000 ''SYM'' SELL 4 102 0) None)
                   (Fill_init ''B'' 60000000 ''SYM'' SELL 4 102 0)) = 10
   \<and> pos_avg_price (position_for (enter_fill bought_ten (Fill_init ''B'' 60000000 ''SYM'' SELL 4 102 0) None)
                      (Fill_init ''B'' 60000000 ''SYM'' SELL 4 102 0)) = 100
   \<and> fill_realized_pnl (snd (apply_fill bought_ten (Fill_init ''B'' 60000000 ''SYM'' SELL 4 102 0) None)) = 8
   \<and> fill_realized_pnl (snd (apply_fill (Portfolio_init 100000 True False)
                                 (Fill_init ''A'' 0 ''SYM'' BUY 10 100 5) None)) = 0"
proof -
  let ?f = "Fill_init ''B'' 60000000 ''SYM'' SELL 4 102 0"
  let ?g = "Fill_init ''A'' 0 ''SYM'' BUY 10 100 5"
  have p: "position_for (enter_fill bought_ten ?f None) ?f
           = \<lparr>pos_symbol = ''SYM'', pos_quantity = 10, pos_avg_price = 100,
              pos_realized_pnl = 0, pos_unrealized_pnl = 0, pos_total_commission = 5,
              pos_opened_at = Some 0, pos_last_updated = Some 0\<rparr>"
    by (simp add: bought_ten_def scenario_defs)
  have q: "pos_quantity (position_for (enter_fill (Portfolio_init 100000 True False) ?g None) ?g) = 0"
    by (simp add: scenario_defs)
  have s: "fill_side ?f = SELL" "fill_side ?g = BUY" "fill_price ?f = 102" "fill_quantity ?f = 4"
    by (simp_all add: Fill_init_def Fill_post_init_def)
  from apply_fill_realized_pnl [OF refl, of bought_ten ?f None]
       apply_fill_realized_pnl [OF refl, of "Portfolio_init 100000 True False" ?g None]
  show ?thesis
    unfolding p q s by simp
qed

section \<open>Bar normalisation\<close>

text \<open>
  Claim C9. Whatever combination of the optional fields open, high, low, close and
  volume is supplied or omitted, the constructed bar satisfies
  low \<open>\<le>\<close> min(open, close) \<open>\<le>\<close> max(open, close) \<open>\<le>\<close> high; and a bar built from a price
  alone has open = high = low = close = price and volume 0.
\<close>

theorem Bar_normalised:
  "bar_low (Bar_post_init ts symb price opn hi lo cl vol)
     \<le> min (bar_open (Bar_post_init ts symb price opn hi lo cl vol))
           (bar_close (Bar_post_init ts symb price opn hi lo cl vol))
   \<and> min (bar_open (Bar_post_init ts symb price opn hi lo cl vol))
         (bar_close (Bar_post_init ts symb price opn hi lo cl vol))
     \<le> max (bar_open (Bar_post_init ts symb price opn hi lo cl vol))
           (bar_close (Bar_post_init ts symb price opn hi lo cl vol))
   \<and> max (bar_open (Bar_post_init ts symb price opn hi lo cl vol))
         (bar_close (Bar_post_init ts symb price opn hi lo cl vol))
     \<le> bar_high (Bar_post_init ts symb price opn hi lo cl vol)
   \<and> Bar_post_init ts symb price None None None None None
     = \<lparr> bar_timestamp = ts, bar_symbol = symb, bar_price = price, bar_open = price,
         bar_high = price, bar_low = price, bar_close = price, bar_volume = 0 \<rparr>"
  by (simp add: Bar_post_init_def Let_def min_def max_def split: option.split)

section \<open>Day boundary and end-of-day square-off\<close>

lemma square_off_items_eq:
  "square_off_items self items =
     (self\<lparr>realized_pnl := realized_pnl self + square_off_pnl (current_prices self) items,
            daily_pnl := daily_pnl self + square_off_pnl (current_prices self) items,
            cash := cash self + square_off_proceeds (current_prices self) items\<rparr>,
      flattened items)"
proof (induction items arbitrary: self)
  case Nil
  show ?case by (simp add: square_off_pnl_def square_off_proceeds_def flattened_def)
next
  case (Cons a items)
  obtain k p where a: "a = (k, p)" by (cases a)
  show ?case
    unfolding a
    by (simp add: Cons.IH square_off_position_def Let_def calculate_pnl_def
        square_off_pnl_def square_off_proceeds_def flattened_def algebra_simps)
qed

lemma square_off_all_positions_eq:
  "square_off_all_positions self ts =
     self\<lparr>realized_pnl := realized_pnl self + square_off_pnl (current_prices self) (positions self),
           daily_pnl := daily_pnl self + square_off_pnl (current_prices self) (positions self),
           cash := cash self + square_off_proceeds (current_prices self) (positions self),
           positions := flattened (positions self)\<rparr>"
  by (simp add: square_off_all_positions_def square_off_items_eq
      square_off_pnl_def square_off_proceeds_def flattened_def)

lemma long_ten_marked_eq:
  "long_ten_marked =
     \<lparr>initial_cash = 100000, cash = 99000, track_daily_pnl = True, square_off_eod = True,
      positions =
        [(''SYM'', \<lparr>pos_symbol = ''SYM'', pos_quantity = 10, pos_avg_price = 100,
                    pos_realized_pnl = 0, pos_unrealized_pnl = 20, pos_total_commission = 0,
                    pos_opened_at = Some 0, pos_last_updated = Some 0\<rparr>)],
      realized_pnl = 0, unrealized_pnl = 20, total_commission = 0, num_trades = 1,
      current_day = Some 0, daily_pnl = 0, daily_starting_value = 100000,
      previous_day_value = 100000, daily_pnl_history = [], daily_return_history = [],
      snapshots = [], current_prices = [(''SYM'', 102)]\<rparr>"
  by (simp add: long_ten_marked_def scenario_defs update_from_bar_def Bar_from_price_def
      Bar_post_init_def update_unrealized_pnl_def)

text \<open>
  Claim C2, on the code. The claim's example: initial cash 100000, long 10 from 100
  without commission, last mark 102, day tracking and \<^verbatim>\<open>square_off_eod\<close> on, and a fill of
  the next day. With the fill arriving at 102 the square-off realizes 20, but the new day
  starts with \<^verbatim>\<open>daily_starting_value\<close> = \<^verbatim>\<open>previous_day_value\<close> = 99020, the total value
  read before the square-off, where the claim says 100020; and the 20 that the square-off
  adds to \<^verbatim>\<open>daily_pnl\<close> is reset to 0 after the history of day 0 was written with 0. With
  the fill arriving at 110 the position is closed at 110, the fill's price that
  \<^verbatim>\<open>apply_fill\<close> cached before the day check, and 100 is realized where the claim, closing
  at the last mark 102, says 20.
\<close>

theorem square_off_at_day_boundary:
  "realized_pnl (fst (apply_fill long_ten_marked next_day_fill None)) = 20
   \<and> daily_starting_value (fst (apply_fill long_ten_marked next_day_fill None)) = 99020
   \<and> previous_day_value (fst (apply_fill long_ten_marked next_day_fill None)) = 99020
   \<and> daily_pnl_history (fst (apply_fill long_ten_marked next_day_fill None)) = [(0, 0)]
   \<and> daily_pnl (fst (apply_fill long_ten_marked next_day_fill None)) = 0
   \<and> dict_get (current_prices long_ten_marked) ''SYM'' 0 = 102
   \<and> realized_pnl (fst (apply_fill long_ten_marked gap_day_fill None)) = 100
   \<and> daily_starting_value (fst (apply_fill long_ten_marked gap_day_fill None)) = 99020"
  by (simp add: long_ten_marked_eq next_day_fill_def gap_day_fill_def scenario_defs
      square_off_all_positions_eq square_off_pnl_def square_off_proceeds_def
      flattened_def dict_get_def)

section \<open>Cumulative realized P&L and the fills\<close>















section \<open>Tick rounding of the fill price\<close>

lemma py_round_nearest: "\<bar>of_int (py_round x) - x\<bar> \<le> 1 / 2"
proof -
  have "of_int \<lfloor>x\<rfloor> \<le> x" "x < of_int \<lfloor>x\<rfloor> + 1" by linarith+
  then show ?thesis
    by (auto simp add: py_round_def Let_def)
qed

lemma py_round_tie_even:
  assumes "\<bar>of_int (py_round x) - x\<bar> = 1 / 2"
  shows "even (py_round x)"
proof -
  have fl: "of_int \<lfloor>x\<rfloor> \<le> x" "x < of_int \<lfloor>x\<rfloor> + 1" by linarith+
  show ?thesis
  proof (cases "x - of_int \<lfloor>x\<rfloor> = 1 / 2")
    case True
    then show ?thesis by (simp add: py_round_def Let_def)
  next
    case False
    with fl assms show ?thesis
      by (auto simp add: py_round_def Let_def split: if_splits)
  qed
qed

lemma nearest_integer:
  fixes x :: real and k j :: int
  assumes "\<bar>of_int k - x\<bar> \<le> 1 / 2"
  shows "\<bar>of_int k - x\<bar> \<le> \<bar>of_int j - x\<bar>"
proof (cases "j = k")
  case True
  then show ?thesis by simp
next
  case False
  then have "1 \<le> \<bar>j - k\<bar>" by linarith
  then have "(1::real) \<le> \<bar>of_int j - of_int k\<bar>"
    by (metis of_int_1_le_iff of_int_abs of_int_diff)
  with assms show ?thesis by linarith
qed

lemma scaled_distance:
  fixes t p :: real
  assumes "0 < t"
  shows "\<bar>of_int k * t - p\<bar> = t * \<bar>of_int k - p / t\<bar>"
proof -
  have "of_int k * t - p = t * (of_int k - p / t)"
    using assms by (simp add: field_simps)
  then show ?thesis
    using assms by (simp add: abs_mult)
qed

lemma round_to_tick_half_even:
  assumes "0 < t"
  shows "round_to_tick p t = Inr (of_int (py_round (p / t)) * t)"
    and "\<bar>of_int (py_round (p / t)) * t - p\<bar> \<le> \<bar>of_int j * t - p\<bar>"
    and "\<bar>of_int (py_round (p / t)) * t - p\<bar> = t / 2 \<Longrightarrow> even (py_round (p / t))"
proof -
  show "round_to_tick p t = Inr (of_int (py_round (p / t)) * t)"
    using assms by (simp add: round_to_tick_def)
  have "\<bar>of_int (py_round (p / t)) - p / t\<bar> \<le> \<bar>of_int j - p / t\<bar>"
    by (rule nearest_integer [OF py_round_nearest])
  then show "\<bar>of_int (py_round (p / t)) * t - p\<bar> \<le> \<bar>of_int j * t - p\<bar>"
    using assms by (simp add: scaled_distance)
  assume "\<bar>of_int (py_round (p / t)) * t - p\<bar> = t / 2"
  then have "t * \<bar>of_int (py_round (p / t)) - p / t\<bar> = t * (1 / 2)"
    using assms by (simp add: scaled_distance)
  then have "\<bar>of_int (py_round (p / t)) - p / t\<bar> = 1 / 2"
    using assms by simp
  then show "even (py_round (p / t))" by (rule py_round_tie_even)
qed

lemma upper_sides: "upper ''BUY'' = ''BUY''" "upper ''SELL'' = ''SELL''"
  by (simp_all add: upper_def upper_char_def)

lemma py_round_halfway: "py_round (401 / 2) = 200"
  by (simp add: py_round_def Let_def)

lemma halfway_fill:
  "\<exists>f e. simulate_fill half_tick_engine market_buy halfway_bar 0 = Inr (Some f, e)
         \<and> fill_execution_price f = 401 / 4 \<and> fill_price f = 100"
  by (simp add: simulate_fill_def half_tick_engine_def market_buy_def halfway_bar_def
      Bar_from_price_def Bar_post_init_def is_active_def determine_execution_price_def
      market_order_price_def calculate_slippage_def upper_sides round_to_tick_def
      py_round_halfway Fill_post_init_def Let_def)

text \<open>
  Claim C3, as the code has it. For a tick size \<open>t > 0\<close>, the price of a fill that
  \<^verbatim>\<open>simulate_fill\<close> produces is \<open>k \<times> t\<close> with \<open>k\<close> the Python \<^verbatim>\<open>round\<close> of the
  post-slippage price divided by \<open>t\<close>: no multiple of \<open>t\<close> is nearer to the post-slippage
  price, and when that price lies exactly halfway between two multiples the one with the
  even \<open>k\<close> is taken (round half to even).
\<close>

theorem fill_price_rounds_half_even:
  assumes "0 < tick_size self"
    and "simulate_fill self ord b n = Inr (Some f, self')"
  shows "\<exists>p. determine_execution_price self ord b = Some p
           \<and> fill_price f
               = of_int (py_round (calculate_slippage p (slippage_bps self)
                                     (side_value (order_side ord)) / tick_size self))
                 * tick_size self
           \<and> (\<forall>j::int. \<bar>fill_price f - calculate_slippage p (slippage_bps self)
                                          (side_value (order_side ord))\<bar>
                         \<le> \<bar>of_int j * tick_size self
                             - calculate_slippage p (slippage_bps self)
                                 (side_value (order_side ord))\<bar>)
           \<and> (\<bar>fill_price f - calculate_slippage p (slippage_bps self)
                                 (side_value (order_side ord))\<bar> = tick_size self / 2
                \<longrightarrow> even (py_round (calculate_slippage p (slippage_bps self)
                                       (side_value (order_side ord)) / tick_size self)))"
proof -
  from assms(2) obtain p where p: "determine_execution_price self ord b = Some p"
    by (auto simp add: simulate_fill_def split: if_splits option.splits)
  define q where "q = calculate_slippage p (slippage_bps self) (side_value (order_side ord))"
  have "fill_price f = of_int (py_round (q / tick_size self)) * tick_size self"
    using assms p
    by (auto simp add: simulate_fill_def Let_def round_to_tick_def Fill_post_init_def q_def
        split: if_splits)
  with round_to_tick_half_even(2,3) [OF assms(1), of q] p
  show ?thesis
    unfolding q_def by auto
qed

theorem fill_price_rounds_half_even_witness:
  "0 < tick_size half_tick_engine
   \<and> (\<exists>f e. simulate_fill half_tick_engine market_buy halfway_bar 0 = Inr (Some f, e)
            \<and> fill_price f = 100
            \<and> (\<forall>j::int. \<bar>fill_price f - 401 / 4\<bar> \<le> \<bar>of_int j * (1 / 2) - 401 / 4\<bar>)
            \<and> even (py_round (401 / 4 / (1 / 2))))"
proof -
  have h: "0 < tick_size half_tick_engine"
    by (simp add: half_tick_engine_def)
  from halfway_fill obtain f e
    where r: "simulate_fill half_tick_engine market_buy halfway_bar 0 = Inr (Some f, e)"
      and fp: "fill_price f = 100"
    by blast
  have d: "determine_execution_price half_tick_engine market_buy halfway_bar = Some (401 / 4)"
    by (simp add: determine_execution_price_def market_order_price_def half_tick_engine_def
        market_buy_def halfway_bar_def Bar_from_price_def Bar_post_init_def Let_def)
  have s: "calculate_slippage (401 / 4) (slippage_bps half_tick_engine)
             (side_value (order_side market_buy)) = 401 / 4"
    by (simp add: calculate_slippage_def half_tick_engine_def market_buy_def upper_sides)
  have t: "tick_size half_tick_engine = 1 / 2"
    by (simp add: half_tick_engine_def)
  from fill_price_rounds_half_even [OF h r] obtain p
    where p: "determine_execution_price half_tick_engine market_buy halfway_bar = Some p"
      and near: "\<forall>j::int.
                   \<bar>fill_price f - calculate_slippage p (slippage_bps half_tick_engine)
                                      (side_value (order_side market_buy))\<bar>
                   \<le> \<bar>of_int j * tick_size half_tick_engine
                       - calculate_slippage p (slippage_bps half_tick_engine)
                           (side_value (order_side market_buy))\<bar>"
    by blast
  from p d have "p = 401 / 4" by (simp only: option.inject)
  with near
  have "\<forall>j::int. \<bar>fill_price f - 401 / 4\<bar> \<le> \<bar>of_int j * (1 / 2) - 401 / 4\<bar>"
    by (simp add: s t)
  moreover have "even (py_round (401 / 4 / (1 / 2)))"
    by (simp add: py_round_halfway)
  ultimately
  show ?thesis using h r fp by blast
qed

text \<open>
  Claim C3 as stated fails at a tie: with a tick size of 0.5 and no slippage, a market buy
  against an open of 100.25 executes at 100.25, which is as far from 100 as from 100.5.
  Ties away from zero would give 100.5; the fill price is 100.
\<close>

theorem halfway_price_rounds_to_even_tick:
  "(\<exists>f e. simulate_fill half_tick_engine market_buy halfway_bar 0 = Inr (Some f, e)
          \<and> fill_execution_price f = 401 / 4 \<and> fill_price f = 100)
   \<and> \<bar>(100::real) - 401 / 4\<bar> = \<bar>201 / 2 - 401 / 4\<bar>
   \<and> \<bar>100::real\<bar> < \<bar>201 / 2\<bar>"
  using halfway_fill by simp

section \<open>Draining the signal queue\<close>

lemma drain_queue_eq:
  "drain_queue q t signals =
     (signals @ takeWhile (\<lambda>s. sig_timestamp s \<le> t) q, dropWhile (\<lambda>s. sig_timestamp s \<le> t) q)"
  by (induction q arbitrary: signals) simp_all

lemma sorted_takeWhile_filter:
  "sorted (map f xs) \<Longrightarrow> takeWhile (\<lambda>s. f s \<le> (t::int)) xs = filter (\<lambda>s. f s \<le> t) xs"
proof (induction xs)
  case Nil
  show ?case by simp
next
  case (Cons a xs)
  show ?case
  proof (cases "f a \<le> t")
    case True
    with Cons show ?thesis by simp
  next
    case False
    with Cons.prems have "\<forall>x\<in>set xs. \<not> f x \<le> t" by auto
    then have "filter (\<lambda>s. f s \<le> t) xs = []" by (simp add: filter_empty_conv)
    with False show ?thesis by simp
  qed
qed

lemma sorted_dropWhile_filter:
  "sorted (map f xs) \<Longrightarrow> dropWhile (\<lambda>s. f s \<le> (t::int)) xs = filter (\<lambda>s. \<not> f s \<le> t) xs"
proof (induction xs)
  case Nil
  show ?case by simp
next
  case (Cons a xs)
  show ?case
  proof (cases "f a \<le> t")
    case True
    with Cons show ?thesis by simp
  next
    case False
    with Cons.prems have "\<forall>x\<in>set xs. \<not> f x \<le> t" by auto
    then have "filter (\<lambda>s. \<not> f s \<le> t) xs = xs" by (simp add: filter_id_conv)
    with False show ?thesis by simp
  qed
qed

text \<open>
  Claim C4, as the code has it. \<^verbatim>\<open>get_signals_for_timestamp(t)\<close> returns and removes the
  leading run of queued signals whose timestamp is \<open>\<le> t\<close>, in insertion order, and stops at
  the first signal that is later than \<open>t\<close>. When the queue is in non-decreasing timestamp
  order, that run is every queued signal with timestamp \<open>\<le> t\<close>, and the signals left are
  those later than \<open>t\<close>.
\<close>

theorem get_signals_for_timestamp_prefix:
  "get_signals_for_timestamp self t
     = (takeWhile (\<lambda>s. sig_timestamp s \<le> t) (signal_queue self),
        self\<lparr>signal_queue := dropWhile (\<lambda>s. sig_timestamp s \<le> t) (signal_queue self)\<rparr>)
   \<and> (sorted (map sig_timestamp (signal_queue self)) \<longrightarrow>
        get_signals_for_timestamp self t
          = (filter (\<lambda>s. sig_timestamp s \<le> t) (signal_queue self),
             self\<lparr>signal_queue := filter (\<lambda>s. \<not> sig_timestamp s \<le> t) (signal_queue self)\<rparr>))"
  by (simp add: get_signals_for_timestamp_def drain_queue_eq sorted_takeWhile_filter
      sorted_dropWhile_filter)

lemmas signal_defs =
  add_signal_def is_duplicate_def timestamp_seconds_def SignalManager_init_def
  Signal_init_def Let_def

lemma out_of_order_queue:
  "signal_queue out_of_order_manager =
     [(Signal_init 10000000 ''SYM'' BUY)\<lparr>sig_id := Some ''S1''\<rparr>,
      (Signal_init 5000000 ''SYM'' SELL)\<lparr>sig_id := Some ''S2''\<rparr>]"
  by (simp add: out_of_order_manager_def signal_defs)

lemma in_order_queue:
  "signal_queue in_order_manager =
     [(Signal_init 5000000 ''SYM'' SELL)\<lparr>sig_id := Some ''S2''\<rparr>,
      (Signal_init 10000000 ''SYM'' BUY)\<lparr>sig_id := Some ''S1''\<rparr>]"
  by (simp add: in_order_manager_def signal_defs)

theorem get_signals_for_timestamp_prefix_witness:
  "sorted (map sig_timestamp (signal_queue in_order_manager))
   \<and> fst (get_signals_for_timestamp in_order_manager 7000000)
       = [(Signal_init 5000000 ''SYM'' SELL)\<lparr>sig_id := Some ''S2''\<rparr>]
   \<and> signal_queue (snd (get_signals_for_timestamp in_order_manager 7000000))
       = [(Signal_init 10000000 ''SYM'' BUY)\<lparr>sig_id := Some ''S1''\<rparr>]"
proof -
  have h: "sorted (map sig_timestamp (signal_queue in_order_manager))"
    by (simp add: in_order_queue Signal_init_def)
  from get_signals_for_timestamp_prefix [of in_order_manager 7000000] h
  have "get_signals_for_timestamp in_order_manager 7000000
          = (filter (\<lambda>s. sig_timestamp s \<le> 7000000) (signal_queue in_order_manager),
             in_order_manager\<lparr>signal_queue :=
               filter (\<lambda>s. \<not> sig_timestamp s \<le> 7000000) (signal_queue in_order_manager)\<rparr>)"
    by blast
  with h show ?thesis
    by (simp add: in_order_queue Signal_init_def)
qed

text \<open>
  Claim C4 as stated fails for a queue filled out of timestamp order: after a signal
  stamped 10 s and then one stamped 5 s were added, the call for 7 s returns nothing and
  the signal stamped 5 s stays queued.
\<close>

theorem due_signal_behind_later_one_stays:
  "fst (get_signals_for_timestamp out_of_order_manager 7000000) = []
   \<and> signal_queue (snd (get_signals_for_timestamp out_of_order_manager 7000000))
       = [(Signal_init 10000000 ''SYM'' BUY)\<lparr>sig_id := Some ''S1''\<rparr>,
          (Signal_init 5000000 ''SYM'' SELL)\<lparr>sig_id := Some ''S2''\<rparr>]
   \<and> sig_timestamp ((Signal_init 5000000 ''SYM'' SELL)\<lparr>sig_id := Some ''S2''\<rparr>) \<le> 7000000"
  by (simp add: get_signals_for_timestamp_def out_of_order_queue Signal_init_def)

section \<open>Stop loss and take profit touched in one bar\<close>

lemma upper_long: "upper ''long'' = ''LONG''" "upper ''SHORT'' = ''SHORT''"
  by (simp_all add: upper_def upper_char_def)

lemma bullish_bar_eq:
  "bullish_bar = \<lparr>bar_timestamp = 0, bar_symbol = ''SYM'', bar_price = 104, bar_open = 99,
                  bar_high = 106, bar_low = 95, bar_close = 104, bar_volume = 0\<rparr>"
  by (simp add: bullish_bar_def Bar_post_init_def Let_def)

lemma flat_close_bar_eq:
  "flat_close_bar = \<lparr>bar_timestamp = 0, bar_symbol = ''SYM'', bar_price = 100, bar_open = 100,
                  bar_high = 106, bar_low = 94, bar_close = 100, bar_volume = 0\<rparr>"
  by (simp add: flat_close_bar_def Bar_post_init_def Let_def)

text \<open>
  Claim C5, as the code has it. When the stop-loss test and the take-profit test both
  succeed on a bar, \<^verbatim>\<open>resolve_tp_sl_tie\<close> decides by the bar's direction, and takes the
  stop loss whenever the direction does not favour the take profit: a long position gets
  TP if close \<open>>\<close> open and SL if close \<open>\<le>\<close> open; a short position gets TP if close \<open><\<close> open
  and SL if close \<open>\<ge>\<close> open. On a bar with close = open both sides get SL. Both tests can
  succeed only for a side that reads LONG, BUY, SHORT or SELL in upper case.
\<close>

theorem resolve_tp_sl_tie_both_hit:
  assumes "check_stop_loss_hit position_side stop_loss b = Some sl_price"
    and "check_take_profit_hit position_side take_profit b = Some tp_price"
  shows "(upper position_side \<in> {''LONG'', ''BUY''} \<longrightarrow>
            resolve_tp_sl_tie position_side stop_loss take_profit b
              = (if bar_open b < bar_close b then (''TP'', tp_price) else (''SL'', sl_price)))
       \<and> (upper position_side \<in> {''SHORT'', ''SELL''} \<longrightarrow>
            resolve_tp_sl_tie position_side stop_loss take_profit b
              = (if bar_close b < bar_open b then (''TP'', tp_price) else (''SL'', sl_price)))
       \<and> (upper position_side \<in> {''LONG'', ''BUY''} \<or> upper position_side \<in> {''SHORT'', ''SELL''})"
  using assms
  by (auto simp add: resolve_tp_sl_tie_def check_stop_loss_hit_def check_take_profit_hit_def
      split: if_splits)

theorem resolve_tp_sl_tie_both_hit_witness:
  "check_stop_loss_hit ''long'' 96 bullish_bar = Some 96
   \<and> check_take_profit_hit ''long'' 105 bullish_bar = Some 105
   \<and> resolve_tp_sl_tie ''long'' 96 105 bullish_bar = (''TP'', 105)"
proof -
  have h1: "check_stop_loss_hit ''long'' 96 bullish_bar = Some 96"
    by (simp add: check_stop_loss_hit_def upper_long bullish_bar_eq)
  have h2: "check_take_profit_hit ''long'' 105 bullish_bar = Some 105"
    by (simp add: check_take_profit_hit_def upper_long bullish_bar_eq)
  from resolve_tp_sl_tie_both_hit [OF h1 h2] h1 h2
  show ?thesis
    by (simp add: upper_long bullish_bar_eq)
qed

text \<open>
  Claim C5 as stated fails on its boundary case: for a short position and a bar that
  closes where it opened, with both levels touched, the result is the stop loss, not the
  take profit.
\<close>

theorem short_tie_on_flat_close_is_stop_loss:
  "check_stop_loss_hit ''SHORT'' 105 flat_close_bar = Some 105
   \<and> check_take_profit_hit ''SHORT'' 95 flat_close_bar = Some 95
   \<and> bar_close flat_close_bar = bar_open flat_close_bar
   \<and> resolve_tp_sl_tie ''SHORT'' 105 95 flat_close_bar = (''SL'', 105)"
  by (simp add: resolve_tp_sl_tie_def check_stop_loss_hit_def check_take_profit_hit_def
      upper_long flat_close_bar_eq)

section \<open>Position sizing and the risk limits\<close>

lemma py_int_floor: "0 \<le> x \<Longrightarrow> py_int x = \<lfloor>x\<rfloor>"
  by (simp add: py_int_def)

text \<open>
  Claim C6, as the code has it. When the signal supplies no size and the sizing method is
  \<^verbatim>\<open>fraction\<close>, then for every price \<open>> 0\<close> and portfolio value \<open>> 0\<close> (the position
  fraction being non-negative) the quantity \<^verbatim>\<open>calculate_position_size\<close> returns is
  max(floor(portfolio value \<open>\<times>\<close> max_position_pct / price), min_position_size): the floor
  is raised to the minimum position size.
\<close>

theorem calculate_position_size_fraction:
  assumes "sizing_method self = ''fraction''"
    and "0 < price" and "0 < portfolio_value" and "0 \<le> max_position_pct self"
  shows "calculate_position_size self symbol price portfolio_value None volatility
           = max \<lfloor>portfolio_value * max_position_pct self / price\<rfloor> (min_position_size self)"
proof -
  have "0 \<le> portfolio_value * max_position_pct self / price"
    using assms by simp
  then show ?thesis
    using assms
    by (simp add: calculate_position_size_def size_by_fraction_def Let_def py_int_floor)
qed

theorem calculate_position_size_fraction_witness:
  "sizing_method RiskManager_default = ''fraction''
   \<and> (0::real) < 50 \<and> (0::real) < 10000 \<and> 0 \<le> max_position_pct RiskManager_default
   \<and> calculate_position_size RiskManager_default ''SYM'' 50 10000 None None = 40"
proof -
  have h1: "sizing_method RiskManager_default = ''fraction''"
    and h4: "0 \<le> max_position_pct RiskManager_default"
    by (simp_all add: RiskManager_default_def)
  have h2: "(0::real) < 50" and h3: "(0::real) < 10000" by simp_all
  from calculate_position_size_fraction [OF h1 h2 h3 h4, of "''SYM''" None] h1 h4
  show ?thesis
    by (simp add: RiskManager_default_def)
qed

text \<open>
  Claim C6 as stated fails when the floor is 0: with the default risk manager (20 percent,
  minimum size 1), a portfolio value of 100 and a price of 1000 the floor is 0 and the
  size returned is 1.
\<close>

theorem zero_fraction_is_raised_to_minimum:
  "\<lfloor>(100::real) * max_position_pct RiskManager_default / 1000\<rfloor> = 0
   \<and> calculate_position_size RiskManager_default ''SYM'' 1000 100 None None = 1"
  by (simp add: RiskManager_default_def calculate_position_size_def size_by_fraction_def
      py_int_def Let_def)

text \<open>
  Claim C10. For a proposed quantity \<open>q > 0\<close> and a price \<open>> 0\<close>,
  \<^verbatim>\<open>adjust_size_for_limits\<close> returns (it does not raise) a quantity between 0 and \<open>q\<close>,
  whatever the portfolio value, the limits and the current positions.
\<close>

theorem adjust_size_for_limits_in_range:
  assumes "0 < proposed_quantity" and "0 < price"
  shows "\<exists>r. adjust_size_for_limits self symbol proposed_quantity price portfolio_value
               current_positions = Inr r
             \<and> 0 \<le> r \<and> r \<le> proposed_quantity"
  using assms
  by (simp add: adjust_size_for_limits_def Let_def)

theorem adjust_size_for_limits_in_range_witness:
  "(0::int) < 100 \<and> (0::real) < 50
   \<and> adjust_size_for_limits RiskManager_default ''SYM'' 100 50 10000 [] = Inr 40
   \<and> (\<exists>r. adjust_size_for_limits RiskManager_default ''SYM'' 100 50 10000 [] = Inr r
            \<and> 0 \<le> r \<and> r \<le> 100)"
proof -
  have h1: "(0::int) < 100" and h2: "(0::real) < 50" by simp_all
  have v: "adjust_size_for_limits RiskManager_default ''SYM'' 100 50 10000 [] = Inr 40"
    by (simp add: adjust_size_for_limits_def check_position_limit_def RiskManager_default_def
        safe_divide_def py_int_def Let_def)
  from adjust_size_for_limits_in_range [OF h1 h2, of RiskManager_default "''SYM''" 10000 "[]"] v
  show ?thesis by simp
qed

end
